theory Spec2Isabelle
  imports Complex_Main
begin

section \<open>JavaScript values used by the module\<close>

text \<open>
  A JavaScript Number is NaN, an infinity, or a finite value. A finite value is kept as
  the rational it stands for: ordering and the decimal rendering below are then plain
  arithmetic, and the result of an operation is rounded to a double by \<open>round_double\<close>.
  (The sign of zero is not represented.)
\<close>

datatype jsnum = NaN | Fin rat | PosInf | NegInf

text \<open>
  The values the hooks compare and format: a Number, which is what an \<open>input-number\<close>
  field of the subscription holds, \<open>undefined\<close>, which is what a property read yields when
  the property is absent, \<open>null\<close> and the booleans. Strings and objects as field values
  are outside the model.
\<close>

datatype jsval = Undefined | Null | Boolean bool | Number jsnum

fun ToNumber :: "jsval \<Rightarrow> jsnum" where
  "ToNumber Undefined = NaN"
| "ToNumber Null = Fin 0"
| "ToNumber (Boolean b) = Fin (if b then 1 else 0)"
| "ToNumber (Number n) = n"

text \<open>
  \<open>Number::lessThan\<close> of ECMA-262: \<open>None\<close> is its result \<open>undefined\<close>, returned as soon as
  one operand is NaN.
\<close>

fun Number_lessThan :: "jsnum \<Rightarrow> jsnum \<Rightarrow> bool option" where
  "Number_lessThan NaN y = None"
| "Number_lessThan x NaN = None"
| "Number_lessThan (Fin a) (Fin b) = Some (a < b)"
| "Number_lessThan PosInf y = Some False"
| "Number_lessThan x PosInf = Some True"
| "Number_lessThan x NegInf = Some False"
| "Number_lessThan NegInf y = Some True"

text \<open>The operator \<open>x < y\<close>: an \<open>undefined\<close> comparison counts as \<open>false\<close>.\<close>

definition js_lt :: "jsval \<Rightarrow> jsval \<Rightarrow> bool" where
  "js_lt x y = (case Number_lessThan (ToNumber x) (ToNumber y) of None \<Rightarrow> False | Some r \<Rightarrow> r)"

text \<open>
  Rounding to the nearest double (IEEE 754 binary64, ties to even). For \<open>a \<ge> 1\<close>,
  \<open>halvings a\<close> is the binary exponent of \<open>a\<close>; for \<open>0 < a < 1\<close>, \<open>doublings a\<close> is
  the exponent negated.
\<close>

function halvings :: "rat \<Rightarrow> nat" where
  "halvings a = (if 2 \<le> a then Suc (halvings (a / 2)) else 0)"
  by pat_completeness auto
termination
proof (relation "measure (\<lambda>a. nat \<lfloor>a\<rfloor>)")
  show "wf (measure (\<lambda>a::rat. nat \<lfloor>a\<rfloor>))" by simp
next
  fix a :: rat
  assume big: "2 \<le> a"
  then have "a / 2 + 1 \<le> a" by simp
  then have "\<lfloor>a / 2 + 1\<rfloor> \<le> \<lfloor>a\<rfloor>" by (rule floor_mono)
  then have "\<lfloor>a / 2\<rfloor> < \<lfloor>a\<rfloor>" by simp
  moreover have "0 < \<lfloor>a\<rfloor>" using big by (simp add: less_floor_iff)
  ultimately have "nat \<lfloor>a / 2\<rfloor> < nat \<lfloor>a\<rfloor>" by linarith
  then show "(a / 2, a) \<in> measure (\<lambda>a. nat \<lfloor>a\<rfloor>)" by simp
qed

declare halvings.simps [simp del]

function doublings :: "rat \<Rightarrow> nat" where
  "doublings a = (if 0 < a \<and> a < 1 then Suc (doublings (a * 2)) else 0)"
  by pat_completeness auto
termination
proof (relation "measure (\<lambda>a. nat \<lceil>1 / a\<rceil>)")
  show "wf (measure (\<lambda>a::rat. nat \<lceil>1 / a\<rceil>))" by simp
next
  fix a :: rat
  assume range: "0 < a \<and> a < 1"
  then have big: "1 < 1 / a" by simp
  have "1 / (a * 2) + 1 \<le> 1 / a \<or> 1 / (a * 2) \<le> 1"
  proof (cases "1 / a \<le> 2")
    case True
    then show ?thesis by (simp add: field_simps)
  next
    case False
    then have "2 < 1 / a" by simp
    then have "1 / (a * 2) + 1 \<le> 1 / a" using range by (simp add: field_simps)
    then show ?thesis by simp
  qed
  then have "\<lceil>1 / (a * 2)\<rceil> < \<lceil>1 / a\<rceil>"
  proof
    assume "1 / (a * 2) + 1 \<le> 1 / a"
    then have "\<lceil>1 / (a * 2) + 1\<rceil> \<le> \<lceil>1 / a\<rceil>" by (rule ceiling_mono)
    then show ?thesis by simp
  next
    assume "1 / (a * 2) \<le> 1"
    then have "\<lceil>1 / (a * 2)\<rceil> \<le> 1" by (simp add: ceiling_le_one)
    moreover have "1 < \<lceil>1 / a\<rceil>" using big by (simp add: less_ceiling_iff)
    ultimately show ?thesis by linarith
  qed
  moreover have "0 < \<lceil>1 / a\<rceil>" using range by (simp add: less_ceiling_iff)
  ultimately have "nat \<lceil>1 / (a * 2)\<rceil> < nat \<lceil>1 / a\<rceil>" by linarith
  then show "(a * 2, a) \<in> measure (\<lambda>a. nat \<lceil>1 / a\<rceil>)" by simp
qed

declare doublings.simps [simp del]

text \<open>
  The distance of neighbouring doubles around a positive value: 52 fraction bits below
  the binary exponent, and \<open>2 ^ -1074\<close> throughout the subnormal range, below
  \<open>2 ^ -1022\<close>.
\<close>

definition ulp :: "rat \<Rightarrow> rat" where
  "ulp a =
     (if 1 \<le> a then 2 ^ halvings a / 2 ^ 52
      else if doublings a \<le> 1022 then 1 / 2 ^ (doublings a + 52)
      else 1 / 2 ^ 1074)"

definition round_half_even :: "rat \<Rightarrow> int" where
  "round_half_even x =
     (let f = \<lfloor>x\<rfloor>; r = x - of_int f
      in if r < 1 / 2 then f else if 1 / 2 < r then f + 1
         else if even f then f else f + 1)"

text \<open>A magnitude that rounds to \<open>2 ^ 1024\<close> or more overflows to an infinity.\<close>

definition round_double :: "rat \<Rightarrow> jsnum" where
  "round_double q =
     (if q = 0 then Fin 0
      else let a = \<bar>q\<bar>; u = ulp a; r = of_int (round_half_even (a / u)) * u
           in if 2 ^ 1024 \<le> r then (if q < 0 then NegInf else PosInf)
              else Fin (if q < 0 then - r else r))"

text \<open>
  \<open>Number::subtract\<close>, the operator \<open>x - y\<close> on Numbers: the exact difference of two
  finite operands, rounded to a double.
\<close>

fun Number_subtract :: "jsnum \<Rightarrow> jsnum \<Rightarrow> jsnum" where
  "Number_subtract NaN y = NaN"
| "Number_subtract x NaN = NaN"
| "Number_subtract (Fin a) (Fin b) = round_double (a - b)"
| "Number_subtract PosInf PosInf = NaN"
| "Number_subtract NegInf NegInf = NaN"
| "Number_subtract PosInf y = PosInf"
| "Number_subtract NegInf y = NegInf"
| "Number_subtract x PosInf = NegInf"
| "Number_subtract x NegInf = PosInf"

text \<open>
  What an \<open>async\<close> function or the SDK can throw: a \<open>TypeError\<close> of the language with its
  message, or any value \<open>'e\<close> thrown by the external SDK.
\<close>

datatype 'e error = TypeError string | Thrown 'e

definition and_then :: "'x + 'a \<Rightarrow> ('a \<Rightarrow> 'x + 'b) \<Rightarrow> 'x + 'b" where
  "and_then r f = (case r of Inl e \<Rightarrow> Inl e | Inr v \<Rightarrow> f v)"

section \<open>The compact number formatter\<close>

text \<open>
  \<open>Intl.NumberFormat('en', { notation: 'compact' })\<close>: short compact display of the
  English locale. A value is scaled to thousands (K), millions (M), billions (B) or
  trillions (T), rounded half away from zero to an integer but keeping at least two
  significant digits, printed without trailing zeros, with a grouping separator once the
  integer part has five digits.
\<close>

definition digit_char :: "nat \<Rightarrow> char" where
  "digit_char d = ''0123456789'' ! d"

fun show_nat :: "nat \<Rightarrow> string" where
  "show_nat n = (if n < 10 then [digit_char n] else show_nat (n div 10) @ [digit_char (n mod 10)])"

declare show_nat.simps [simp del]

fun group_thousands :: "string \<Rightarrow> string" where
  "group_thousands ds =
     (if length ds \<le> 3 then ds
      else group_thousands (take (length ds - 3) ds) @ '','' @ drop (length ds - 3) ds)"

declare group_thousands.simps [simp del]

text \<open>The number of zeros between the decimal point and the first significant digit, plus one,
  for a value strictly between 0 and 1; 0 for any other value.\<close>

function lead_zeros :: "rat \<Rightarrow> nat" where
  "lead_zeros v = (if 0 < v \<and> v < 1 then Suc (lead_zeros (v * 10)) else 0)"
  by pat_completeness auto
termination
proof (relation "measure (\<lambda>v. nat \<lceil>1 / v\<rceil>)")
  show "wf (measure (\<lambda>v::rat. nat \<lceil>1 / v\<rceil>))" by simp
next
  fix v :: rat
  assume range: "0 < v \<and> v < 1"
  then have big: "1 < 1 / v" by simp
  have "1 / (v * 10) + 1 \<le> 1 / v \<or> 1 / (v * 10) \<le> 1"
  proof (cases "1 / v \<le> 10")
    case True
    then show ?thesis by (simp add: field_simps)
  next
    case False
    then have "10 < 1 / v" by simp
    then have "1 / (v * 10) + 1 \<le> 1 / v" using range by (simp add: field_simps)
    then show ?thesis by simp
  qed
  then have "\<lceil>1 / (v * 10)\<rceil> < \<lceil>1 / v\<rceil>"
  proof
    assume "1 / (v * 10) + 1 \<le> 1 / v"
    then have "\<lceil>1 / (v * 10) + 1\<rceil> \<le> \<lceil>1 / v\<rceil>" by (rule ceiling_mono)
    then show ?thesis by simp
  next
    assume "1 / (v * 10) \<le> 1"
    then have "\<lceil>1 / (v * 10)\<rceil> \<le> 1" by (simp add: ceiling_le_one)
    moreover have "1 < \<lceil>1 / v\<rceil>" using big by (simp add: less_ceiling_iff)
    ultimately show ?thesis by linarith
  qed
  moreover have "0 < \<lceil>1 / v\<rceil>" using range by (simp add: less_ceiling_iff)
  ultimately have "nat \<lceil>1 / (v * 10)\<rceil> < nat \<lceil>1 / v\<rceil>" by linarith
  then show "(v * 10, v) \<in> measure (\<lambda>v. nat \<lceil>1 / v\<rceil>)" by simp
qed

declare lead_zeros.simps [simp del]

text \<open>Compact rounding: no fraction digit from 10 on, and below 10 as many as two
  significant digits need.\<close>

definition fraction_digits :: "rat \<Rightarrow> nat" where
  "fraction_digits v = (if 10 \<le> v then 0 else lead_zeros v + 1)"

text \<open>Rounding mode half-expand, on a non-negative value.\<close>

definition round_half_expand :: "rat \<Rightarrow> nat" where
  "round_half_expand q = nat \<lfloor>q + 1 / 2\<rfloor>"

definition strip_zeros :: "string \<Rightarrow> string" where
  "strip_zeros s = rev (dropWhile (\<lambda>c. c = CHR ''0'') (rev s))"

definition pad_left :: "nat \<Rightarrow> string \<Rightarrow> string" where
  "pad_left p s = replicate (p - length s) (CHR ''0'') @ s"

text \<open>The decimal rendering of \<open>m / 10 ^ p\<close>.\<close>

definition show_decimal :: "nat \<Rightarrow> nat \<Rightarrow> string" where
  "show_decimal m p =
     (let ip = show_nat (m div 10 ^ p);
          ig = (if 5 \<le> length ip then group_thousands ip else ip);
          fp = strip_zeros (pad_left p (show_nat (m mod 10 ^ p)))
      in if fp = [] then ig else ig @ ''.'' @ fp)"

definition compact_exponent :: "rat \<Rightarrow> nat" where
  "compact_exponent a =
     (if a < 10 ^ 3 then 0 else if a < 10 ^ 6 then 3 else if a < 10 ^ 9 then 6
      else if a < 10 ^ 12 then 9 else 12)"

definition compact_suffix :: "nat \<Rightarrow> string" where
  "compact_suffix s =
     (if s = 0 then [] else if s = 3 then ''K'' else if s = 6 then ''M''
      else if s = 9 then ''B'' else ''T'')"

text \<open>A non-negative value. When rounding carries the scaled value to 1000, the next
  suffix is used (999999 is shown as 1M), except past the last one.\<close>

definition format_magnitude :: "rat \<Rightarrow> string" where
  "format_magnitude a =
     (let s = compact_exponent a;
          v = a / 10 ^ s;
          p = fraction_digits v;
          m = round_half_expand (v * 10 ^ p)
      in if m = 1000 * 10 ^ p \<and> s < 12 then ''1'' @ compact_suffix (s + 3)
         else show_decimal m p @ compact_suffix s)"

text \<open>The infinity sign U+221E, as its three UTF-8 bytes.\<close>

definition infinity_sign :: string where
  "infinity_sign = [CHR 0xE2, CHR 0x88, CHR 0x9E]"

fun format_compact_en :: "jsnum \<Rightarrow> string" where
  "format_compact_en NaN = ''NaN''"
| "format_compact_en PosInf = infinity_sign"
| "format_compact_en NegInf = ''-'' @ infinity_sign"
| "format_compact_en (Fin x) =
     (if x < 0 then ''-'' @ format_magnitude (- x) else format_magnitude x)"

text \<open>
  The module constant \<open>amountFormatter\<close> is an \<open>Intl.NumberFormat\<close> instance: an object
  with a \<open>format\<close> method, which converts its argument with \<open>ToNumber\<close>. The instance
  itself is not a function.
\<close>

datatype number_format = NumberFormat_en_compact

definition amountFormatter :: number_format where
  "amountFormatter = NumberFormat_en_compact"

fun format :: "number_format \<Rightarrow> jsval \<Rightarrow> string" where
  "format NumberFormat_en_compact v = format_compact_en (ToNumber v)"

text \<open>
  A call \<open>f(x)\<close>: the value in callee position is a function, which is applied, or some
  other object, and then the call throws a \<open>TypeError\<close> naming the callee expression.
\<close>

datatype callee = FunctionValue "jsval \<Rightarrow> string" | NumberFormatInstance number_format

fun js_call :: "string \<Rightarrow> callee \<Rightarrow> jsval \<Rightarrow> 'e error + string" where
  "js_call name (FunctionValue f) x = Inr (f x)"
| "js_call name (NumberFormatInstance nf) x = Inl (TypeError (name @ '' is not a function''))"

section \<open>Objects of the module\<close>

text \<open>The object \<open>getFreeCollateral\<close> resolves to (\<open>FreeCollateralParams\<close>).\<close>

record snapshot =
  debt :: jsnum
  collateral :: jsnum
  freeCollateral :: jsnum

text \<open>
  The promise an \<open>async\<close> function returns, with the outcome it settles to: rejected with
  what the body throws, or fulfilled with what it returns. \<open>await\<close> yields that outcome.
\<close>

datatype 'e promise = Promise "'e error + snapshot"

fun await :: "'e promise \<Rightarrow> 'e error + snapshot" where
  "await (Promise outcome) = outcome"

text \<open>
  The objects whose properties the module reads. A promise has no property named
  \<open>debt\<close>, \<open>collateral\<close> or \<open>freeCollateral\<close>; reading one yields \<open>undefined\<close>.
\<close>

datatype 'e jsobject = SnapshotObject snapshot | PromiseObject "'e promise"

fun get_property :: "'e jsobject \<Rightarrow> string \<Rightarrow> jsval" where
  "get_property (SnapshotObject s) k =
     (if k = ''debt'' then Number (debt s)
      else if k = ''collateral'' then Number (collateral s)
      else if k = ''freeCollateral'' then Number (freeCollateral s)
      else Undefined)"
| "get_property (PromiseObject p) k = Undefined"

text \<open>
  The arguments of the hooks: \<open>subscription\<close> is \<open>None\<close> when the key is absent, and
  otherwise the object of the form's field values by field id.
\<close>

record args =
  subscription :: "(string \<rightharpoonup> jsval) option"
  address :: string

text \<open>Reading a field of the subscription object: \<open>undefined\<close> when it is absent.\<close>

definition subscription_field :: "(string \<rightharpoonup> jsval) \<Rightarrow> string \<Rightarrow> jsval" where
  "subscription_field sub k = (case sub k of None \<Rightarrow> Undefined | Some v \<Rightarrow> v)"

record field_descriptor =
  field_type :: string
  field_id :: string
  field_label :: string
  field_default :: jsnum
  field_description :: string

record notification_record =
  notification :: string

text \<open>What \<open>onBlocks\<close> resolves to: \<open>undefined\<close>, the empty array, or a notification.\<close>

datatype blocks_result =
  ReturnsUndefined | EmptyArray | NotificationResult notification_record

section \<open>The external SDK\<close>

text \<open>
  The module calls \<open>@notional-finance/sdk-v2\<close>, which is not part of it; the calls are
  parameters of the model. Each one returns its result or the error it throws.
  \<^item> \<open>load chainId\<close>: \<open>Notional.load(chainId, null)\<close>, the SDK handle;
  \<^item> \<open>getAccountFromGraph h accountId\<close>: the account;
  \<^item> \<open>account_getFreeCollateral a\<close>: the pair \<open>netETHDebtWithBuffer\<close>,
    \<open>netETHCollateralWithHaircut\<close> of \<open>a.getFreeCollateral()\<close>, two ETH amounts in the
    SDK's integer unit, so that \<open>sub\<close> is integer subtraction;
  \<^item> \<open>toUSD_Number x\<close>: \<open>Number(x.toUSD().toExactString())\<close> for an ETH amount \<open>x\<close>.
\<close>

record ('e, 'h, 'a) notional =
  load :: "nat \<Rightarrow> 'e error + 'h"
  getAccountFromGraph :: "'h \<Rightarrow> string \<Rightarrow> 'e error + 'a"
  account_getFreeCollateral :: "'a \<Rightarrow> 'e error + (int \<times> int)"
  toUSD_Number :: "int \<Rightarrow> 'e error + jsnum"

section \<open>The class FreeCollateral\<close>

text \<open>
  \<open>onInit\<close> has an empty body: it resolves to \<open>undefined\<close> (here \<open>()\<close>). The state \<open>w\<close> is
  everything the host can observe; the hook returns it as it got it.
\<close>

definition onInit :: "'x \<Rightarrow> 'w \<Rightarrow> ('e error + unit) \<times> 'w" where
  "onInit a w = (Inr (), w)"

definition getFreeCollateral :: "('e, 'h, 'a) notional \<Rightarrow> string \<Rightarrow> 'e promise" where
  "getFreeCollateral sdk accountId = Promise (
     and_then (load sdk 1) (\<lambda>notionalSdk.
     and_then (getAccountFromGraph sdk notionalSdk accountId) (\<lambda>account.
     and_then (account_getFreeCollateral sdk account)
       (\<lambda>(netETHDebtWithBuffer, netETHCollateralWithHaircut).
     let freeCollateralETH = netETHCollateralWithHaircut - netETHDebtWithBuffer in
     and_then (toUSD_Number sdk netETHDebtWithBuffer) (\<lambda>d.
     and_then (toUSD_Number sdk netETHCollateralWithHaircut) (\<lambda>c.
     and_then (toUSD_Number sdk freeCollateralETH) (\<lambda>f.
     Inr \<lparr>debt = d, collateral = c, freeCollateral = f\<rparr>)))))))"

definition onSubscribeForm ::
  "('e, 'h, 'a) notional \<Rightarrow> args \<Rightarrow> 'e error + field_descriptor list" where
  "onSubscribeForm sdk a =
     and_then (await (getFreeCollateral sdk (address a))) (\<lambda>snap.
     and_then (js_call ''amountFormatter'' (NumberFormatInstance amountFormatter)
                 (Number (freeCollateral snap))) (\<lambda>current.
     Inr [\<lparr>field_type = ''input-number'',
           field_id = ''free-collateral'',
           field_label = ''Free Collateral'',
           field_default = Fin 1000,
           field_description =
             ''Notify me when account free collateral drops under X USD. (Currently: ''
               @ current @ '' USD)''\<rparr>]))"

definition buildNotification :: "'e jsobject \<Rightarrow> notification_record" where
  "buildNotification fc = \<lparr>notification =
     ''Your account is low in free collateral and is at risk of getting liquidated. Free collateral: ''
       @ format amountFormatter (get_property fc ''freeCollateral'')
       @ '' USD | Collateral: ''
       @ format amountFormatter (get_property fc ''collateral'')
       @ '' USD | Debt: ''
       @ format amountFormatter (get_property fc ''debt'')
       @ '' USD''\<rparr>"

text \<open>
  \<open>onBlocks\<close> does not await \<open>getFreeCollateral\<close>: \<open>accountFreeCollateral\<close> is the promise
  itself, and it is the promise whose \<open>freeCollateral\<close> property is compared and that is
  handed to \<open>buildNotification\<close>.
\<close>

definition onBlocks :: "('e, 'h, 'a) notional \<Rightarrow> args \<Rightarrow> 'e error + blocks_result" where
  "onBlocks sdk a =
     (case subscription a of
        None \<Rightarrow> Inr ReturnsUndefined
      | Some sub \<Rightarrow>
          let freeCollateralThreshold = subscription_field sub ''free-collateral'';
              accountFreeCollateral = PromiseObject (getFreeCollateral sdk (address a))
          in if js_lt (get_property accountFreeCollateral ''freeCollateral'')
                  freeCollateralThreshold
             then Inr (NotificationResult (buildNotification accountFreeCollateral))
             else Inr EmptyArray)"

text \<open>The number of positions of a string at which a given word starts.\<close>

fun starts_with :: "string \<Rightarrow> string \<Rightarrow> bool" where
  "starts_with [] s = True"
| "starts_with (c # w) [] = False"
| "starts_with (c # w) (d # s) = (c = d \<and> starts_with w s)"

fun occurrences :: "string \<Rightarrow> string \<Rightarrow> nat" where
  "occurrences w [] = (if w = [] then 1 else 0)"
| "occurrences w (c # s) = (if starts_with w (c # s) then 1 else 0) + occurrences w s"

text \<open>Whether a hook has failed with a \<open>TypeError\<close>.\<close>

fun fails_with_TypeError :: "'e error + 'r \<Rightarrow> bool" where
  "fails_with_TypeError (Inl (TypeError msg)) = True"
| "fails_with_TypeError (Inl (Thrown e)) = False"
| "fails_with_TypeError (Inr r) = False"

section \<open>An SDK for the examples\<close>

text \<open>
  A stand-in for the SDK with one account per address, whose ETH amounts are given by
  \<open>position\<close> and whose USD value is the amount itself; \<open>broken_sdk\<close> cannot be loaded.
\<close>

definition mock_sdk :: "(string \<Rightarrow> int \<times> int) \<Rightarrow> (string, unit, string) notional" where
  "mock_sdk position =
     \<lparr>load = (\<lambda>chain. Inr ()),
      getAccountFromGraph = (\<lambda>h accountId. Inr accountId),
      account_getFreeCollateral = (\<lambda>acc. Inr (position acc)),
      toUSD_Number = (\<lambda>x. Inr (Fin (of_int x)))\<rparr>"


text \<open>
  The same, with one ETH unit worth one cent: the USD figure is the exact decimal
  \<open>x / 100\<close>, which \<open>Number\<close> rounds to the nearest double.
\<close>

definition decimal_sdk :: "(string \<Rightarrow> int \<times> int) \<Rightarrow> (string, unit, string) notional" where
  "decimal_sdk position =
     \<lparr>load = (\<lambda>chain. Inr ()),
      getAccountFromGraph = (\<lambda>h accountId. Inr accountId),
      account_getFreeCollateral = (\<lambda>acc. Inr (position acc)),
      toUSD_Number = (\<lambda>x. Inr (round_double (of_int x / 100)))\<rparr>"

definition broken_sdk :: "(string, unit, string) notional" where
  "broken_sdk =
     \<lparr>load = (\<lambda>chain. Inl (Thrown ''network error'')),
      getAccountFromGraph = (\<lambda>h accountId. Inr accountId),
      account_getFreeCollateral = (\<lambda>acc. Inr (0, 0)),
      toUSD_Number = (\<lambda>x. Inr (Fin (of_int x)))\<rparr>"

section \<open>Auxiliary facts\<close>

lemma js_lt_Undefined: "js_lt Undefined t = False"
  by (simp add: js_lt_def)

lemma await_mock_sdk:
  "await (getFreeCollateral (mock_sdk position) accountId) =
     Inr \<lparr>debt = Fin (of_int (fst (position accountId))),
          collateral = Fin (of_int (snd (position accountId))),
          freeCollateral = Fin (of_int (snd (position accountId) - fst (position accountId)))\<rparr>"
  by (simp add: getFreeCollateral_def mock_sdk_def and_then_def split: prod.split)

lemma await_broken_sdk:
  "await (getFreeCollateral broken_sdk accountId) = Inl (Thrown ''network error'')"
  by (simp add: getFreeCollateral_def broken_sdk_def and_then_def)

subsection \<open>The three renderings of the example\<close>

lemma format_minus_500: "format amountFormatter (Number (Fin (- 500))) = ''-500''"
  by code_simp

lemma format_1500: "format amountFormatter (Number (Fin 1500)) = ''1.5K''"
  by code_simp

lemma format_2000: "format amountFormatter (Number (Fin 2000)) = ''2K''"
  by code_simp

lemma notification_2000_1500:
  "notification (buildNotification (SnapshotObject
     \<lparr>debt = Fin 2000, collateral = Fin 1500, freeCollateral = Fin (- 500)\<rparr>)) =
   ''Your account is low in free collateral and is at risk of getting liquidated. Free collateral: -500 USD | Collateral: 1.5K USD | Debt: 2K USD''"
  by (simp add: buildNotification_def format_minus_500 format_1500 format_2000)

lemma occurrences_minus_500: "occurrences ''-500'' ''Your account is low in free collateral and is at risk of getting liquidated. Free collateral: -500 USD | Collateral: 1.5K USD | Debt: 2K USD'' = 1"
  by code_simp

lemma occurrences_1500: "occurrences ''1.5K'' ''Your account is low in free collateral and is at risk of getting liquidated. Free collateral: -500 USD | Collateral: 1.5K USD | Debt: 2K USD'' = 1"
  by code_simp

lemma occurrences_2000: "occurrences ''2K'' ''Your account is low in free collateral and is at risk of getting liquidated. Free collateral: -500 USD | Collateral: 1.5K USD | Debt: 2K USD'' = 1"
  by code_simp

subsection \<open>The formatter never prints the letter U\<close>

lemma digit_char_no_U: "d < 10 \<Longrightarrow> digit_char d \<noteq> CHR ''U''"
proof -
  assume "d < 10"
  then have "digit_char d \<in> set ''0123456789''"
    unfolding digit_char_def by (intro nth_mem) simp
  then show ?thesis by auto
qed

lemma show_nat_no_U: "CHR ''U'' \<notin> set (show_nat n)"
proof (induction n rule: show_nat.induct)
  case (1 n)
  show ?case
  proof (cases "n < 10")
    case True
    then show ?thesis
      by (subst show_nat.simps) (simp add: digit_char_no_U [symmetric] del: One_nat_def)
  next
    case False
    then have "CHR ''U'' \<notin> set (show_nat (n div 10))" by (rule "1.IH")
    moreover have "digit_char (n mod 10) \<noteq> CHR ''U''" by (rule digit_char_no_U) simp
    ultimately show ?thesis using False by (subst show_nat.simps) auto
  qed
qed

lemma group_thousands_no_U:
  "CHR ''U'' \<notin> set ds \<Longrightarrow> CHR ''U'' \<notin> set (group_thousands ds)"
proof (induction ds rule: group_thousands.induct)
  case (1 ds)
  show ?case
  proof (cases "length ds \<le> 3")
    case True
    then show ?thesis using "1.prems" by (subst group_thousands.simps) simp
  next
    case False
    have "CHR ''U'' \<notin> set (take (length ds - 3) ds)"
      using "1.prems" by (auto dest: in_set_takeD)
    with False have "CHR ''U'' \<notin> set (group_thousands (take (length ds - 3) ds))"
      by (rule "1.IH")
    moreover have "CHR ''U'' \<notin> set (drop (length ds - 3) ds)"
      using "1.prems" by (auto dest: in_set_dropD)
    ultimately show ?thesis using False by (subst group_thousands.simps) simp
  qed
qed

lemma strip_zeros_no_U: "CHR ''U'' \<notin> set s \<Longrightarrow> CHR ''U'' \<notin> set (strip_zeros s)"
  by (auto simp: strip_zeros_def dest: set_dropWhileD)

lemma pad_left_no_U: "CHR ''U'' \<notin> set s \<Longrightarrow> CHR ''U'' \<notin> set (pad_left p s)"
  by (auto simp: pad_left_def)

lemma show_decimal_no_U: "CHR ''U'' \<notin> set (show_decimal m p)"
  by (simp add: show_decimal_def Let_def show_nat_no_U group_thousands_no_U
      strip_zeros_no_U pad_left_no_U)

lemma compact_suffix_no_U: "CHR ''U'' \<notin> set (compact_suffix s)"
  by (simp add: compact_suffix_def)

lemma format_magnitude_no_U: "CHR ''U'' \<notin> set (format_magnitude a)"
  by (simp add: format_magnitude_def Let_def show_decimal_no_U compact_suffix_no_U)

lemma format_compact_en_no_U: "CHR ''U'' \<notin> set (format_compact_en n)"
  by (cases n) (simp_all add: format_magnitude_no_U infinity_sign_def)

lemma occurrences_USD_skip:
  "CHR ''U'' \<notin> set xs \<Longrightarrow> occurrences ''USD'' (xs @ ys) = occurrences ''USD'' ys"
  by (induction xs) auto

lemma occurrences_USD_buildNotification:
  "occurrences ''USD'' (notification (buildNotification x)) = 3"
  by (simp add: buildNotification_def amountFormatter_def occurrences_USD_skip
      format_compact_en_no_U)

section \<open>The collateral query\<close>



lemma await_decimal_sdk:
  "await (getFreeCollateral (decimal_sdk position) accountId) =
     Inr \<lparr>debt = round_double (of_int (fst (position accountId)) / 100),
          collateral = round_double (of_int (snd (position accountId)) / 100),
          freeCollateral =
            round_double (of_int (snd (position accountId) - fst (position accountId)) / 100)\<rparr>"
  by (simp add: getFreeCollateral_def decimal_sdk_def and_then_def split: prod.split)




lemma round_double_tenth:
  "round_double (of_int 10 / 100) = Fin (3602879701896397 / 36028797018963968)"
  by code_simp

lemma round_double_three_tenths:
  "round_double (of_int 30 / 100) = Fin (5404319552844595 / 18014398509481984)"
  by code_simp

lemma round_double_fifth:
  "round_double (of_int (30 - 10) / 100) = Fin (3602879701896397 / 18014398509481984)"
  by code_simp

lemma Number_subtract_three_tenths_tenth:
  "Number_subtract (Fin (5404319552844595 / 18014398509481984))
     (Fin (3602879701896397 / 36028797018963968))
   = Fin (7205759403792793 / 36028797018963968)"
  by code_simp


text \<open>
  The same happens with a conversion that loses nothing but the rounding of \<open>Number\<close>:
  debt 0.10 USD and collateral 0.30 USD give the free collateral 0.2, the double nearest
  to 0.20, while 0.3 - 0.1 on the two Numbers is 0.19999999999999998, one step below it.
\<close>

lemma getFreeCollateral_rounding_example:
  "await (getFreeCollateral (decimal_sdk (\<lambda>acc. (10, 30))) ''0xabc'') =
     Inr \<lparr>debt = Fin (3602879701896397 / 36028797018963968),
          collateral = Fin (5404319552844595 / 18014398509481984),
          freeCollateral = Fin (3602879701896397 / 18014398509481984)\<rparr>
   \<and> Number_subtract (Fin (5404319552844595 / 18014398509481984))
       (Fin (3602879701896397 / 36028797018963968))
     = Fin (7205759403792793 / 36028797018963968)
   \<and> Fin (3602879701896397 / 18014398509481984)
       \<noteq> Fin (7205759403792793 / (36028797018963968 :: rat))"
proof -
  have "await (getFreeCollateral (decimal_sdk (\<lambda>acc. (10, 30))) ''0xabc'') =
     Inr \<lparr>debt = Fin (3602879701896397 / 36028797018963968),
          collateral = Fin (5404319552844595 / 18014398509481984),
          freeCollateral = Fin (3602879701896397 / 18014398509481984)\<rparr>"
    unfolding await_decimal_sdk fst_conv snd_conv
    by (simp only: round_double_tenth round_double_three_tenths round_double_fifth)
  moreover have "Fin (3602879701896397 / 18014398509481984)
       \<noteq> Fin (7205759403792793 / (36028797018963968 :: rat))"
    by simp
  ultimately show ?thesis
    using Number_subtract_three_tenths_tenth by blast
qed



section \<open>The block-evaluation hook\<close>

text \<open>
  C1. With the threshold \<open>free-collateral\<close> = 500, \<open>onBlocks\<close> is to return a notification
  when the fetched snapshot has \<open>freeCollateral\<close> = 400 and the empty result when it has
  600. The theorem evaluates the hook on an account with debt 600 and collateral 1000,
  whose snapshot has \<open>freeCollateral\<close> = 400: the comparison on the resolved snapshot,
  400 < 500, holds, and yet the hook resolves to the empty array, because it compares
  the property of the promise and not of the snapshot.
\<close>

theorem onBlocks_400_under_500_is_empty:
  "await (getFreeCollateral (mock_sdk (\<lambda>acc. (600, 1000))) ''0xabc'') =
     Inr \<lparr>debt = Fin 600, collateral = Fin 1000, freeCollateral = Fin 400\<rparr>
   \<and> js_lt (Number (Fin 400)) (Number (Fin 500))
   \<and> onBlocks (mock_sdk (\<lambda>acc. (600, 1000)))
        \<lparr>subscription = Some [''free-collateral'' \<mapsto> Number (Fin 500)], address = ''0xabc''\<rparr>
      = Inr EmptyArray"
  by (simp add: await_mock_sdk onBlocks_def js_lt_def subscription_field_def)

text \<open>
  C3. For every arguments record that contains a subscription, \<open>onBlocks\<close> resolves to the
  empty array, whatever the SDK, the address and the threshold are: the \<open>freeCollateral\<close>
  property of the promise that was not awaited is \<open>undefined\<close>, and \<open>undefined < t\<close> is
  false for every threshold \<open>t\<close>.
\<close>

theorem onBlocks_with_subscription:
  assumes "subscription a = Some sub"
  shows "onBlocks sdk a = Inr EmptyArray
    \<and> get_property (PromiseObject (getFreeCollateral sdk (address a))) ''freeCollateral''
        = Undefined
    \<and> (\<forall>t. \<not> js_lt Undefined t)"
  using assms by (simp add: onBlocks_def js_lt_Undefined)

theorem onBlocks_with_subscription_witness:
  "subscription \<lparr>subscription = Some [''free-collateral'' \<mapsto> Number (Fin 500)],
                 address = ''0x600''\<rparr>
     = Some [''free-collateral'' \<mapsto> Number (Fin 500)]
   \<and> await (getFreeCollateral (mock_sdk (\<lambda>acc. (400, 1000))) ''0x600'') =
       Inr \<lparr>debt = Fin 400, collateral = Fin 1000, freeCollateral = Fin 600\<rparr>
   \<and> onBlocks (mock_sdk (\<lambda>acc. (400, 1000)))
        \<lparr>subscription = Some [''free-collateral'' \<mapsto> Number (Fin 500)],
         address = ''0x600''\<rparr>
      = Inr EmptyArray"
  using onBlocks_with_subscription
    [of "\<lparr>subscription = Some [''free-collateral'' \<mapsto> Number (Fin 500)], address = ''0x600''\<rparr>"
        "[''free-collateral'' \<mapsto> Number (Fin 500)]"
        "mock_sdk (\<lambda>acc. (400, 1000))"]
  by (simp add: await_mock_sdk)

text \<open>
  C6. For every arguments record without a subscription, \<open>onBlocks\<close> resolves to
  \<open>undefined\<close>: it returns no notification and it does not fail.
\<close>

theorem onBlocks_without_subscription:
  assumes "subscription a = None"
  shows "onBlocks sdk a = Inr ReturnsUndefined"
  using assms by (simp add: onBlocks_def)

theorem onBlocks_without_subscription_witness:
  "subscription \<lparr>subscription = None, address = ''0xabc''\<rparr> = None
   \<and> onBlocks (mock_sdk (\<lambda>acc. (600, 1000))) \<lparr>subscription = None, address = ''0xabc''\<rparr>
      = Inr ReturnsUndefined"
  using onBlocks_without_subscription
    [of "\<lparr>subscription = None, address = ''0xabc''\<rparr>" "mock_sdk (\<lambda>acc. (600, 1000))"]
  by simp

section \<open>The subscription form\<close>

text \<open>
  C2. For an address whose snapshot fetch succeeds, \<open>onSubscribeForm\<close> is to return one
  field descriptor with id \<open>free-collateral\<close> and default 1000. The theorem evaluates the
  hook on an account whose fetch succeeds: no descriptor is returned, the hook fails with
  a \<open>TypeError\<close>, because it calls the formatter object instead of its \<open>format\<close> method.
\<close>

theorem onSubscribeForm_fetch_succeeds_example:
  "await (getFreeCollateral (mock_sdk (\<lambda>acc. (2000, 1500))) ''0xabc'') =
     Inr \<lparr>debt = Fin 2000, collateral = Fin 1500, freeCollateral = Fin (- 500)\<rparr>
   \<and> onSubscribeForm (mock_sdk (\<lambda>acc. (2000, 1500))) \<lparr>subscription = None, address = ''0xabc''\<rparr>
      = Inl (TypeError ''amountFormatter is not a function'')"
  by (simp add: await_mock_sdk onSubscribeForm_def and_then_def)

text \<open>
  C4, as stated: for every address \<open>onSubscribeForm\<close> fails with a \<open>TypeError\<close>. It does not
  when the fetch itself fails: then the hook fails with the error of the fetch.
\<close>

theorem onSubscribeForm_TypeError_counterexample:
  "onSubscribeForm broken_sdk \<lparr>subscription = None, address = ''0xdead''\<rparr>
     = Inl (Thrown ''network error'')
   \<and> \<not> fails_with_TypeError
         (onSubscribeForm broken_sdk \<lparr>subscription = None, address = ''0xdead''\<rparr>)"
  by (simp add: onSubscribeForm_def and_then_def await_broken_sdk)

text \<open>
  C4, amended. For every address for which the snapshot fetch succeeds, whatever the
  snapshot, \<open>onSubscribeForm\<close> fails with the \<open>TypeError\<close> of calling the formatter object
  as a function; and for no address at all does it return a field descriptor.
\<close>

theorem onSubscribeForm_never_returns:
  "(\<forall>snap. await (getFreeCollateral sdk (address a)) = Inr snap \<longrightarrow>
       onSubscribeForm sdk a = Inl (TypeError ''amountFormatter is not a function''))
   \<and> (\<forall>fields. onSubscribeForm sdk a \<noteq> Inr fields)"
  by (simp add: onSubscribeForm_def and_then_def split: sum.split)

theorem onSubscribeForm_never_returns_witness:
  "await (getFreeCollateral (mock_sdk (\<lambda>acc. (250, 1250))) ''0x1000'') =
     Inr \<lparr>debt = Fin 250, collateral = Fin 1250, freeCollateral = Fin 1000\<rparr>
   \<and> onSubscribeForm (mock_sdk (\<lambda>acc. (250, 1250))) \<lparr>subscription = None, address = ''0x1000''\<rparr>
      = Inl (TypeError ''amountFormatter is not a function'')"
  using onSubscribeForm_never_returns
    [of "mock_sdk (\<lambda>acc. (250, 1250))" "\<lparr>subscription = None, address = ''0x1000''\<rparr>"]
  by (simp add: await_mock_sdk)

text \<open>
  C9. For every address for which the snapshot fetch fails with an error \<open>e\<close>,
  \<open>onSubscribeForm\<close> fails with \<open>e\<close>: it returns no field descriptor and puts no value in
  the place of the missing snapshot.
\<close>

theorem onSubscribeForm_fetch_fails:
  assumes "await (getFreeCollateral sdk (address a)) = Inl e"
  shows "onSubscribeForm sdk a = Inl e"
  using assms by (simp add: onSubscribeForm_def and_then_def)

theorem onSubscribeForm_fetch_fails_witness:
  "await (getFreeCollateral broken_sdk ''0xabc'') = Inl (Thrown ''network error'')
   \<and> onSubscribeForm broken_sdk \<lparr>subscription = None, address = ''0xabc''\<rparr>
      = Inl (Thrown ''network error'')"
  using onSubscribeForm_fetch_fails
    [of broken_sdk "\<lparr>subscription = None, address = ''0xabc''\<rparr>" "Thrown ''network error''"]
  by (simp add: await_broken_sdk)

section \<open>The notification builder\<close>

text \<open>
  C7. For the snapshot with debt 2000, collateral 1500 and free collateral -500,
  \<open>buildNotification\<close> returns the text below: it holds the compact renderings -500, 1.5K
  and 2K of the three figures, the free collateral with its minus sign, and the word USD
  exactly three times. \<open>buildNotification\<close> has a result for every snapshot, of the same
  shape and with the word USD exactly three times.
\<close>

theorem buildNotification_example:
  "notification (buildNotification (SnapshotObject
     \<lparr>debt = Fin 2000, collateral = Fin 1500, freeCollateral = Fin (- 500)\<rparr>)) =
   ''Your account is low in free collateral and is at risk of getting liquidated. Free collateral: -500 USD | Collateral: 1.5K USD | Debt: 2K USD''
   \<and> format amountFormatter (Number (Fin (- 500))) = ''-500''
   \<and> format amountFormatter (Number (Fin 1500)) = ''1.5K''
   \<and> format amountFormatter (Number (Fin 2000)) = ''2K''
   \<and> occurrences ''-500'' ''Your account is low in free collateral and is at risk of getting liquidated. Free collateral: -500 USD | Collateral: 1.5K USD | Debt: 2K USD'' = 1
   \<and> occurrences ''1.5K'' ''Your account is low in free collateral and is at risk of getting liquidated. Free collateral: -500 USD | Collateral: 1.5K USD | Debt: 2K USD'' = 1
   \<and> occurrences ''2K'' ''Your account is low in free collateral and is at risk of getting liquidated. Free collateral: -500 USD | Collateral: 1.5K USD | Debt: 2K USD'' = 1
   \<and> occurrences ''USD'' (notification (buildNotification (SnapshotObject
        \<lparr>debt = Fin 2000, collateral = Fin 1500, freeCollateral = Fin (- 500)\<rparr>))) = 3
   \<and> (\<forall>s. notification (buildNotification (SnapshotObject s)) =
        ''Your account is low in free collateral and is at risk of getting liquidated. Free collateral: ''
          @ format_compact_en (freeCollateral s) @ '' USD | Collateral: ''
          @ format_compact_en (collateral s) @ '' USD | Debt: ''
          @ format_compact_en (debt s) @ '' USD'')
   \<and> (\<forall>s. occurrences ''USD'' (notification (buildNotification (SnapshotObject s))) = 3)"
proof -
  have shape: "\<forall>s. notification (buildNotification (SnapshotObject s)) =
        ''Your account is low in free collateral and is at risk of getting liquidated. Free collateral: ''
          @ format_compact_en (freeCollateral s) @ '' USD | Collateral: ''
          @ format_compact_en (collateral s) @ '' USD | Debt: ''
          @ format_compact_en (debt s) @ '' USD''"
    by (simp add: buildNotification_def amountFormatter_def)
  have count: "\<forall>s. occurrences ''USD'' (notification (buildNotification (SnapshotObject s))) = 3"
    by (simp add: occurrences_USD_buildNotification)
  show ?thesis
    by (intro conjI notification_2000_1500 format_minus_500 format_1500 format_2000
        occurrences_minus_500 occurrences_1500 occurrences_2000
        occurrences_USD_buildNotification shape count)
qed

text \<open>
  C8. \<open>buildNotification\<close> depends on nothing but the three figures it reads from its
  argument: two arguments with the same \<open>freeCollateral\<close>, \<open>collateral\<close> and \<open>debt\<close>, and
  so two identical snapshots, give the same notification.
\<close>

theorem buildNotification_deterministic:
  assumes "get_property x ''freeCollateral'' = get_property y ''freeCollateral''"
    and "get_property x ''collateral'' = get_property y ''collateral''"
    and "get_property x ''debt'' = get_property y ''debt''"
  shows "notification (buildNotification x) = notification (buildNotification y)"
  using assms by (simp add: buildNotification_def)

theorem buildNotification_deterministic_witness:
  "notification (buildNotification (SnapshotObject
     \<lparr>debt = Fin 2000, collateral = Fin 1500, freeCollateral = Fin (- 500)\<rparr> :: string jsobject))
   = notification (buildNotification (SnapshotObject
     \<lparr>debt = Fin 2000, collateral = Fin 1500, freeCollateral = Fin (- 500)\<rparr> :: unit jsobject))"
  using buildNotification_deterministic
    [of "SnapshotObject \<lparr>debt = Fin 2000, collateral = Fin 1500, freeCollateral = Fin (- 500)\<rparr> :: string jsobject"
        "SnapshotObject \<lparr>debt = Fin 2000, collateral = Fin 1500, freeCollateral = Fin (- 500)\<rparr> :: unit jsobject"]
  by simp

section \<open>Initialisation\<close>

text \<open>
  C10. For every argument and every state, \<open>onInit\<close> completes, resolves to \<open>undefined\<close>
  and leaves the state as it was.
\<close>

theorem onInit_no_effect: "onInit a w = (Inr (), w)"
  by (simp add: onInit_def)

end
